theory Spec2Isabelle
  imports Main
begin

section \<open>Data model of CypherPoker.js\<close>

text \<open>
  The class \<^verbatim>\<open>CypherPoker\<close> keeps its lobby state in lazily created fields of the
  instance and talks to a peer-to-peer transport (\<^verbatim>\<open>this.p2p\<close>), to the host's timers and to
  its own event listeners. The model is explicit state passing over one record: the
  instance's fields, and a log for each outward effect.

  JavaScript objects are open, so a field may be \<^verbatim>\<open>undefined\<close> or \<^verbatim>\<open>null\<close>: such a field
  is an \<open>option\<close>, with \<open>None\<close> standing for both (the source always tests them together,
  and \<^verbatim>\<open>undefined == null\<close> holds). Peer ids, table ids and table names are strings, as the
  \<^verbatim>\<open>TableObject\<close> typedef says, so the source's \<^verbatim>\<open>==\<close> is equality on them.
\<close>

datatype error =
    TypeError        \<comment> \<open>property read or call on \<^verbatim>\<open>undefined\<close>\<close>
  | ReferenceError   \<comment> \<open>read of an identifier that is declared nowhere\<close>
  | NotConnected     \<comment> \<open>\<^verbatim>\<open>Error("Peer-to-peer network connection not established.")\<close>\<close>

text \<open>\<^verbatim>\<open>tableInfo\<close> is free-form: a string or an object of key/value pairs.\<close>

datatype info = InfoText string | InfoObject "(string \<times> string) list"

text \<open>
  One record for every object that carries table fields: a table of the registry, a cached
  announcement, a pending join request, and a CypherPoker message (\<^verbatim>\<open>buildCPMessage\<close>
  followed by \<^verbatim>\<open>copyTable\<close>). \<open>beaconID\<close> and \<open>joinTimeoutID\<close> are timer handles;
  \<open>promiseID\<close> stands for the pair \<^verbatim>\<open>_resolve\<close>/\<^verbatim>\<open>_reject\<close> of the promise that
  \<^verbatim>\<open>joinTable\<close> returns.
\<close>

record tableObj =
  cpMsg :: "string option"
  ownerPID :: "string option"
  tableID :: "string option"
  tableName :: "string option"
  requiredPID :: "string list option"
  joinedPID :: "string list option"
  tableInfo :: "info option"
  beaconID :: "nat option"
  joinTimeoutID :: "nat option"
  promiseID :: "nat option"

text \<open>
  The JSON-RPC \<^verbatim>\<open>result\<close> object of an inbound notification: \<^verbatim>\<open>from\<close> is the sender's
  private id as the transport reports it, \<^verbatim>\<open>data\<close> the payload.
\<close>

record result =
  fromPID :: string
  data :: "tableObj option"

datatype cpEvent =
    MessageEvent string result   \<comment> \<open>\<^verbatim>\<open>new Event(messageType)\<close> with \<^verbatim>\<open>data\<close>\<close>
  | JoinTableTimeout tableObj    \<comment> \<open>\<^verbatim>\<open>new Event("jointabletimeout")\<close> with \<^verbatim>\<open>table\<close>\<close>

datatype promiseState = Pending | Fulfilled | Rejected "error option"

text \<open>
  The instance. Fields \<open>u_x\<close> are the source's \<^verbatim>\<open>this._x\<close>. \<open>sent\<close>, \<open>broadcasts\<close> and
  \<open>dispatched\<close> record the calls of \<^verbatim>\<open>p2p.send\<close>, \<^verbatim>\<open>p2p.broadcast\<close> and
  \<^verbatim>\<open>dispatchEvent\<close> in order; \<open>timers\<close> holds the handles of the running host timers and
  \<open>promises\<close> the state of every promise handed out, by index.
\<close>

record cypherPoker =
  connected :: bool
  privateID :: string
  u_openTables :: "bool option"
  u_joinedTables :: "tableObj list option"
  u_announcedTables :: "tableObj list option"
  u_joinTableRequests :: "tableObj list option"
  u_maxCapturedTables :: "int option"
  u_maxCapturesPerPeer :: "int option"
  sent :: "(tableObj \<times> string option list) list"
  broadcasts :: "tableObj list"
  dispatched :: "cpEvent list"
  timers :: "nat list"
  nextTimer :: nat
  promises :: "promiseState list"

text \<open>The instance right after \<^verbatim>\<open>new CypherPoker(settings)\<close>, on a transport with id \<open>pid\<close>.\<close>

definition newCypherPoker :: "string \<Rightarrow> cypherPoker" where
  "newCypherPoker pid =
     \<lparr>connected = False, privateID = pid, u_openTables = None, u_joinedTables = None,
      u_announcedTables = None, u_joinTableRequests = None, u_maxCapturedTables = None,
      u_maxCapturesPerPeer = None, sent = [], broadcasts = [], dispatched = [],
      timers = [], nextTimer = 0, promises = []\<rparr>"

text \<open>The instance after a successful \<^verbatim>\<open>start()\<close>.\<close>

definition started :: "string \<Rightarrow> cypherPoker" where
  "started pid = (newCypherPoker pid)\<lparr>connected := True\<rparr>"

text \<open>An object with no property set, the \<^verbatim>\<open>new Object()\<close> of the source.\<close>

definition newObject :: tableObj where
  "newObject =
     \<lparr>cpMsg = None, ownerPID = None, tableID = None, tableName = None, requiredPID = None,
      joinedPID = None, tableInfo = None, beaconID = None, joinTimeoutID = None,
      promiseID = None\<rparr>"

section \<open>Property accessors\<close>

text \<open>
  Each getter installs its default in the backing field when that is unset and returns the
  field. The write-back stores the very value returned, so the model reads through the
  getter and leaves the field as it is.
\<close>

definition openTables :: "cypherPoker \<Rightarrow> bool" where
  "openTables self = (case u_openTables self of None \<Rightarrow> False | Some b \<Rightarrow> b)"

definition joinedTables :: "cypherPoker \<Rightarrow> tableObj list" where
  "joinedTables self = (case u_joinedTables self of None \<Rightarrow> [] | Some ts \<Rightarrow> ts)"

definition announcedTables :: "cypherPoker \<Rightarrow> tableObj list" where
  "announcedTables self = (case u_announcedTables self of None \<Rightarrow> [] | Some ts \<Rightarrow> ts)"

definition maxCapturedTables :: "cypherPoker \<Rightarrow> int" where
  "maxCapturedTables self = (case u_maxCapturedTables self of None \<Rightarrow> 99 | Some n \<Rightarrow> n)"

definition maxCapturesPerPeer :: "cypherPoker \<Rightarrow> int" where
  "maxCapturesPerPeer self = (case u_maxCapturesPerPeer self of None \<Rightarrow> 5 | Some n \<Rightarrow> n)"

section \<open>Table validity\<close>

text \<open>
  \<^verbatim>\<open>isValidTable\<close>, check by check. The two \<^verbatim>\<open>typeof(....length) != "number"\<close> tests
  always pass on an array, which is what \<open>requiredPID\<close> and \<open>joinedPID\<close> hold here.
\<close>

definition isValidTable :: "tableObj option \<Rightarrow> bool" where
  "isValidTable tableObj =
     (case tableObj of
        None \<Rightarrow> False
      | Some t \<Rightarrow>
          if ownerPID t = None \<or> ownerPID t = Some [] then False
          else if tableID t = None \<or> tableID t = Some [] then False
          else if tableName t = None then False
          else if requiredPID t = None then False
          else if joinedPID t = None then False
          else if tableInfo t = None \<or> tableInfo t = Some (InfoText []) then False
          else True)"

section \<open>The announcement cache\<close>

text \<open>
  The scan of \<^verbatim>\<open>captureTable\<close> over \<^verbatim>\<open>this._announcedTables\<close>, from index 0, with the
  counter \<open>numTables\<close>. It yields \<open>True\<close> when the loop leaves through one of its two
  \<^verbatim>\<open>return (false)\<close> statements.
\<close>

fun captureLoop :: "tableObj list \<Rightarrow> int \<Rightarrow> string \<Rightarrow> string option \<Rightarrow> int \<Rightarrow> bool" where
  "captureLoop [] numTables frm tid maxPerPeer = False"
| "captureLoop (entry # rest) numTables frm tid maxPerPeer =
     (if ownerPID entry = Some frm then
        (let counted = numTables + 1
         in if tableID entry = tid then True
            else if counted > maxPerPeer then True
            else captureLoop rest counted frm tid maxPerPeer)
      else captureLoop rest numTables frm tid maxPerPeer)"

text \<open>
  \<^verbatim>\<open>captureTable\<close>. The source builds a copy \<^verbatim>\<open>newTable\<close> whose \<^verbatim>\<open>ownerPID\<close> it
  overwrites with the sender, and then stores \<^verbatim>\<open>tableResult.data\<close> itself: the copy is
  dropped, so the model stores the payload \<open>d\<close> unchanged.
\<close>

definition captureTable :: "result \<Rightarrow> cypherPoker \<Rightarrow> bool \<times> cypherPoker" where
  "captureTable tableResult self =
     (let cache = announcedTables self;
          self1 = self\<lparr>u_announcedTables := Some cache\<rparr>
      in if \<not> isValidTable (data tableResult) then (False, self1)
         else case data tableResult of
                None \<Rightarrow> (False, self1)
              | Some d \<Rightarrow>
                  if captureLoop cache 0 (fromPID tableResult) (tableID d)
                       (maxCapturesPerPeer self)
                  then (False, self1)
                  else
                    (let unshifted = d # cache;
                         popped = (if int (length unshifted) > maxCapturedTables self
                                   then butlast unshifted else unshifted)
                     in (True, self1\<lparr>u_announcedTables := Some popped\<rparr>)))"

text \<open>A run of announcements, each captured in the state the one before left.\<close>

fun captureAll :: "result list \<Rightarrow> cypherPoker \<Rightarrow> bool list \<times> cypherPoker" where
  "captureAll [] self = ([], self)"
| "captureAll (r # rs) self =
     (case captureTable r self of
        (ok, self') \<Rightarrow> (case captureAll rs self' of (oks, self'') \<Rightarrow> (ok # oks, self'')))"

text \<open>
  A valid table of \<open>owner\<close> with the id \<open>tid\<close> and the open seats \<open>slots\<close>, and the
  \<^verbatim>\<open>newtable\<close> notification that the transport delivers when peer \<open>frm\<close> announces
  such a table with one open seat.
\<close>

definition exampleTable :: "string \<Rightarrow> string \<Rightarrow> string list \<Rightarrow> tableObj" where
  "exampleTable owner tid slots =
     newObject\<lparr>ownerPID := Some owner, tableID := Some tid, tableName := Some ''t'',
       requiredPID := Some slots, joinedPID := Some [owner],
       tableInfo := Some (InfoObject [])\<rparr>"

definition announcement :: "string \<Rightarrow> string \<Rightarrow> string \<Rightarrow> result" where
  "announcement frm owner tid =
     \<lparr>fromPID = frm, data = Some ((exampleTable owner tid [''*''])\<lparr>cpMsg := Some ''newtable''\<rparr>)\<rparr>"

section \<open>Messages\<close>

definition buildCPMessage :: "string \<Rightarrow> tableObj" where
  "buildCPMessage messageType = newObject\<lparr>cpMsg := Some messageType\<rparr>"

definition copyTable :: "tableObj \<Rightarrow> tableObj \<Rightarrow> tableObj" where
  "copyTable sourceTable targetObject =
     targetObject\<lparr>tableName := tableName sourceTable, tableID := tableID sourceTable,
       ownerPID := ownerPID sourceTable, requiredPID := requiredPID sourceTable,
       joinedPID := joinedPID sourceTable, tableInfo := tableInfo sourceTable\<rparr>"

text \<open>\<^verbatim>\<open>createTablePIDList\<close>: the ids of \<open>PIDList\<close> other than the local one, in order.\<close>

definition createTablePIDList :: "string list \<Rightarrow> cypherPoker \<Rightarrow> string list" where
  "createTablePIDList PIDList self = filter (\<lambda>pid. pid \<noteq> privateID self) PIDList"

definition sendJoinTableRequest :: "tableObj \<Rightarrow> cypherPoker \<Rightarrow> cypherPoker" where
  "sendJoinTableRequest tableObj self =
     (let joinRequestObj = copyTable tableObj (buildCPMessage ''jointablerequest'')
      in self\<lparr>sent := sent self @ [(joinRequestObj, [ownerPID tableObj])]\<rparr>)"

section \<open>Host timers and promises\<close>

text \<open>
  Time itself is not modelled: a timer is a handle that is running or not, and a running
  timer may expire at any moment. \<^verbatim>\<open>setTimeout\<close> and \<^verbatim>\<open>setInterval\<close> hand out the next
  handle; \<^verbatim>\<open>clearInterval\<close> of a handle stops it, and of \<^verbatim>\<open>undefined\<close> does nothing.
\<close>

definition setTimer :: "cypherPoker \<Rightarrow> nat \<times> cypherPoker" where
  "setTimer self =
     (nextTimer self,
      self\<lparr>timers := timers self @ [nextTimer self], nextTimer := Suc (nextTimer self)\<rparr>)"

definition clearInterval :: "nat option \<Rightarrow> cypherPoker \<Rightarrow> cypherPoker" where
  "clearInterval handle self =
     (case handle of
        None \<Rightarrow> self
      | Some h \<Rightarrow> self\<lparr>timers := removeAll h (timers self)\<rparr>)"

text \<open>Settling a promise: only a pending promise changes state.\<close>

definition settle :: "nat \<Rightarrow> promiseState \<Rightarrow> cypherPoker \<Rightarrow> cypherPoker" where
  "settle p outcome self =
     (if p < length (promises self) \<and> promises self ! p = Pending
      then self\<lparr>promises := (promises self)[p := outcome]\<rparr> else self)"

text \<open>
  The value of \<^verbatim>\<open>this\<close> inside a method: the instance when the method is called on it,
  the host's own object when the host calls the bare function, as it does for a callback
  given to \<^verbatim>\<open>setTimeout\<close> or \<^verbatim>\<open>setInterval\<close>. The host's object has no \<^verbatim>\<open>debug\<close>
  method, so \<^verbatim>\<open>this.debug(...)\<close> throws a TypeError there.
\<close>

datatype receiver = ThisInstance | ThisHost

section \<open>Joining a table\<close>

text \<open>The first loop of \<^verbatim>\<open>joinTable\<close>, over \<^verbatim>\<open>tableObj.requiredPID\<close>.\<close>

fun slotLoop :: "string list \<Rightarrow> string \<Rightarrow> bool \<Rightarrow> bool" where
  "slotLoop [] pid slotAvailable = slotAvailable"
| "slotLoop (required # rest) pid slotAvailable =
     slotLoop rest pid (if required = ''*'' \<or> required = pid then True else slotAvailable)"

text \<open>
  The loop over the pending requests reads \<^verbatim>\<open>currentRequestTable[count]\<close>, the property
  of a table object named by the number \<open>count\<close>. A table object has the properties of
  \<open>tableObj\<close> and none named by a number, so the read yields \<^verbatim>\<open>undefined\<close>, and reading
  \<^verbatim>\<open>.ownerPID\<close> of that throws.
\<close>

definition indexedProperty :: "tableObj \<Rightarrow> nat \<Rightarrow> tableObj option" where
  "indexedProperty obj count = None"

fun requestLoop :: "tableObj list \<Rightarrow> nat \<Rightarrow> tableObj \<Rightarrow> error + bool" where
  "requestLoop [] count tableObj = Inr False"
| "requestLoop (currentRequestTable # rest) count tableObj =
     (case indexedProperty currentRequestTable count of
        None \<Rightarrow> Inl TypeError
      | Some entry \<Rightarrow>
          if ownerPID entry = ownerPID tableObj \<and> tableID entry = tableID tableObj
          then Inr True
          else requestLoop rest (Suc count) tableObj)"

text \<open>
  The executor that \<^verbatim>\<open>joinTable\<close> gives to \<^verbatim>\<open>new Promise\<close>, for the promise of index
  \<open>p\<close>. \<open>Inl\<close> is an exception thrown inside it; \<open>Inr (Rejected None)\<close> is
  \<^verbatim>\<open>reject (null)\<close>; \<open>Inr Pending\<close> is the normal end, with the request recorded, the
  message sent and the timer started. The request object is the table given, with the
  promise's functions and the timer handle stored in it.
\<close>

definition joinTableExecutor ::
  "nat \<Rightarrow> tableObj option \<Rightarrow> nat \<Rightarrow> cypherPoker \<Rightarrow> (error + promiseState) \<times> cypherPoker" where
  "joinTableExecutor p tableObj replyTimeout self =
     (if \<not> connected self then (Inl NotConnected, self)
      else if \<not> isValidTable tableObj then (Inr (Rejected None), self)
      else
        case tableObj of
          None \<Rightarrow> (Inr (Rejected None), self)
        | Some t \<Rightarrow>
            (case requiredPID t of
               None \<Rightarrow> (Inl TypeError, self)
             | Some required \<Rightarrow>
                 if \<not> slotLoop required (privateID self) False
                 then (Inr (Rejected None), self)
                 else
                   (let requests = (case u_joinTableRequests self of
                                      None \<Rightarrow> [] | Some rs \<Rightarrow> rs);
                        self1 = self\<lparr>u_joinTableRequests := Some requests\<rparr>
                    in case requestLoop requests 0 t of
                         Inl err \<Rightarrow> (Inl err, self1)
                       | Inr True \<Rightarrow> (Inr (Rejected None), self1)
                       | Inr False \<Rightarrow>
                           (let self2 = sendJoinTableRequest t self1;
                                (handle, self3) = setTimer self2;
                                request = t\<lparr>promiseID := Some p, joinTimeoutID := Some handle\<rparr>
                            in (Inr Pending,
                                self3\<lparr>u_joinTableRequests := Some (requests @ [request])\<rparr>)))))"

text \<open>
  \<^verbatim>\<open>joinTable\<close> returns the promise: its index, and the instance holding its state. An
  exception in the executor rejects the promise with the error thrown.
\<close>

definition joinTable :: "tableObj option \<Rightarrow> nat \<Rightarrow> cypherPoker \<Rightarrow> nat \<times> cypherPoker" where
  "joinTable tableObj replyTimeout self =
     (let p = length (promises self)
      in case joinTableExecutor p tableObj replyTimeout self of
           (Inl err, self') \<Rightarrow> (p, self'\<lparr>promises := promises self' @ [Rejected (Some err)]\<rparr>)
         | (Inr outcome, self') \<Rightarrow> (p, self'\<lparr>promises := promises self' @ [outcome]\<rparr>))"

section \<open>Timeout of a join request\<close>

text \<open>
  The loop of \<^verbatim>\<open>onJoinTableRequestTimeout\<close>: the first request equal to \<open>tableObj\<close> in
  table id, name and owner is spliced out; the result is that request and the array left.
\<close>

fun spliceRequest :: "tableObj list \<Rightarrow> tableObj \<Rightarrow> (tableObj \<times> tableObj list) option" where
  "spliceRequest [] tableObj = None"
| "spliceRequest (requestObj # rest) tableObj =
     (if tableID tableObj = tableID requestObj \<and> tableName tableObj = tableName requestObj
         \<and> ownerPID tableObj = ownerPID requestObj
      then Some (requestObj, rest)
      else (case spliceRequest rest tableObj of
              None \<Rightarrow> None
            | Some (found, left) \<Rightarrow> Some (found, requestObj # left)))"

text \<open>
  The method reads the requests from its argument \<open>context\<close>, and calls \<^verbatim>\<open>debug\<close> and
  \<^verbatim>\<open>dispatchEvent\<close> on \<^verbatim>\<open>this\<close>. The model has one instance: \<open>context\<close> is its state,
  and \<open>this\<close> says whether the call was made on it.
\<close>

definition onJoinTableRequestTimeout ::
  "receiver \<Rightarrow> tableObj \<Rightarrow> cypherPoker \<Rightarrow> (error + unit) \<times> cypherPoker" where
  "onJoinTableRequestTimeout this tableObj context =
     (if this \<noteq> ThisInstance then (Inl TypeError, context)
      else
        case u_joinTableRequests context of
          None \<Rightarrow> (Inl TypeError, context)
        | Some requestsArray \<Rightarrow>
            (case spliceRequest requestsArray tableObj of
               None \<Rightarrow> (Inr (), context)
             | Some (requestObj, left) \<Rightarrow>
                 (let context1 = context\<lparr>u_joinTableRequests := Some left,
                                   dispatched := dispatched context @ [JoinTableTimeout requestObj]\<rparr>
                  in case promiseID requestObj of
                       None \<Rightarrow> (Inl TypeError, context1)
                     | Some p \<Rightarrow> (Inr (), settle p (Rejected None) context1))))"

text \<open>
  Expiry of the timer \<open>handle\<close> that \<^verbatim>\<open>joinTable\<close> started with
  \<^verbatim>\<open>setTimeout(this.onJoinTableRequestTimeout, replyTimeout, tableObj, this)\<close>: the host
  calls the bare function with the two arguments given. \<open>tableObj\<close> is the request object
  that carries the handle.
\<close>

definition joinTimerExpires :: "nat \<Rightarrow> cypherPoker \<Rightarrow> (error + unit) \<times> cypherPoker" where
  "joinTimerExpires handle self =
     (if handle \<notin> set (timers self) then (Inr (), self)
      else
        (let self1 = self\<lparr>timers := removeAll handle (timers self)\<rparr>
         in case find (\<lambda>r. joinTimeoutID r = Some handle)
                   (case u_joinTableRequests self1 of None \<Rightarrow> [] | Some rs \<Rightarrow> rs) of
              None \<Rightarrow> (Inr (), self1)
            | Some tableObj \<Rightarrow> onJoinTableRequestTimeout ThisHost tableObj self1))"

section \<open>Searching the joined tables\<close>

text \<open>
  Line 674 of the source tests \<^verbatim>\<open>ownerID != null\<close>. The parameter is called
  \<^verbatim>\<open>ownerPID\<close>; no declaration of \<^verbatim>\<open>ownerID\<close> exists in the source, so evaluating the
  identifier throws a ReferenceError.
\<close>

definition ownerID :: "error + string option" where
  "ownerID = Inl ReferenceError"

text \<open>
  The loop of \<^verbatim>\<open>getJoinedTables\<close> with its score \<open>hits\<close>, reset for every table. The
  third test, were it reached with a value, asks whether the table's \<^verbatim>\<open>ownerPID\<close> is
  truthy (a string that is not empty), not whether it equals the owner searched for.
\<close>

fun getJoinedTablesLoop ::
  "tableObj list \<Rightarrow> string option \<Rightarrow> string option \<Rightarrow> error + tableObj list" where
  "getJoinedTablesLoop [] name tid = Inr []"
| "getJoinedTablesLoop (t # rest) name tid =
     (let hits0 = (0::int);
          hits1 = (if name \<noteq> None
                   then (if tableName t = name then hits0 + 1 else hits0 - 10) else hits0);
          hits2 = (if tid \<noteq> None
                   then (if tableID t = tid then hits1 + 1 else hits1 - 10) else hits1)
      in case ownerID of
           Inl err \<Rightarrow> Inl err
         | Inr oid \<Rightarrow>
             (let hits3 = (if oid \<noteq> None
                           then (if ownerPID t \<noteq> None \<and> ownerPID t \<noteq> Some []
                                 then hits2 + 1 else hits2 - 10)
                           else hits2)
              in case getJoinedTablesLoop rest name tid of
                   Inl err \<Rightarrow> Inl err
                 | Inr returned \<Rightarrow> Inr (if hits3 > 0 then t # returned else returned)))"

definition getJoinedTables ::
  "string option \<Rightarrow> string option \<Rightarrow> string option \<Rightarrow> cypherPoker
     \<Rightarrow> (error + tableObj list) \<times> cypherPoker" where
  "getJoinedTables name tid owner self =
     (case u_joinedTables self of
        None \<Rightarrow> (Inr [], self\<lparr>u_joinedTables := Some []\<rparr>)
      | Some joined \<Rightarrow>
          if name = None \<and> tid = None \<and> owner = None then (Inr joined, self)
          else (getJoinedTablesLoop joined name tid, self))"

text \<open>What the specification asks of the search: the tables matching every filter given.\<close>

definition specMatchesAllFilters ::
  "string option \<Rightarrow> string option \<Rightarrow> string option \<Rightarrow> tableObj \<Rightarrow> bool" where
  "specMatchesAllFilters name tid owner t =
     ((name = None \<or> tableName t = name) \<and> (tid = None \<or> tableID t = tid)
      \<and> (owner = None \<or> ownerPID t = owner))"

section \<open>Announcing a table\<close>

text \<open>
  \<^verbatim>\<open>announceTable(tableObj, context=null)\<close>: \<open>contextGiven\<close> says whether the instance
  was passed as \<^verbatim>\<open>context\<close>, as the beacon timer of \<^verbatim>\<open>createTable\<close> does; without it
  the method works on \<^verbatim>\<open>this\<close>.
\<close>

definition announceTable ::
  "receiver \<Rightarrow> tableObj \<Rightarrow> bool \<Rightarrow> cypherPoker \<Rightarrow> (error + unit) \<times> cypherPoker" where
  "announceTable this tableObj contextGiven self =
     (let context = (if contextGiven then ThisInstance else this)
      in case requiredPID tableObj of
           None \<Rightarrow> (Inl TypeError, self)
         | Some required \<Rightarrow>
             if length required = 0 then (Inr (), clearInterval (beaconID tableObj) self)
             else if context \<noteq> ThisInstance then (Inl TypeError, self)
             else
               (let announceObj = copyTable tableObj (buildCPMessage ''newtable'')
                in (Inr (), self\<lparr>broadcasts := broadcasts self @ [announceObj]\<rparr>)))"

section \<open>Creating a table\<close>

text \<open>
  \<^verbatim>\<open>createTable(tableName, players, tableInfo, tableID, activateBeacon)\<close>. \<open>players\<close>
  is a number of wildcard seats or a list of seats. Without a \<open>tid\<close> the source takes the
  digits of \<^verbatim>\<open>Math.random()\<close>, here the argument \<open>randomDigits\<close>. With the beacon on,
  the interval timer is started and the first announcement made at once. The result is the
  new table as the call leaves it, which is also the object pushed to the registry.
\<close>

definition createTable ::
  "string \<Rightarrow> nat + string list \<Rightarrow> info option \<Rightarrow> string option \<Rightarrow> bool \<Rightarrow> string
     \<Rightarrow> cypherPoker \<Rightarrow> (error + tableObj) \<times> cypherPoker" where
  "createTable name players info tid activateBeacon randomDigits self =
     (if \<not> connected self then (Inl NotConnected, self)
      else
        (let newTableObj = newObject\<lparr>
               tableID := Some (case tid of None \<Rightarrow> randomDigits | Some given \<Rightarrow> given),
               tableName := Some name,
               ownerPID := Some (privateID self),
               requiredPID := Some (case players of
                                      Inl number \<Rightarrow> replicate number ''*''
                                    | Inr seats \<Rightarrow> seats),
               joinedPID := Some [privateID self],
               tableInfo := Some (case info of None \<Rightarrow> InfoObject [] | Some given \<Rightarrow> given)\<rparr>;
             self1 = self\<lparr>u_openTables := Some True\<rparr>
         in if activateBeacon then
              (case setTimer self1 of
                 (handle, self2) \<Rightarrow>
                   (let beaconTable = newTableObj\<lparr>beaconID := Some handle\<rparr>;
                        self3 = self2\<lparr>u_joinedTables := Some (joinedTables self2 @ [beaconTable])\<rparr>
                    in (Inr beaconTable, snd (announceTable ThisInstance beaconTable False self3))))
            else (Inr newTableObj,
                  self1\<lparr>u_joinedTables := Some (joinedTables self1 @ [newTableObj])\<rparr>)))"

section \<open>Handling a join request\<close>

text \<open>
  The inner loop of the \<^verbatim>\<open>"jointablerequest"\<close> case of \<^verbatim>\<open>handleP2PMessage\<close>, over
  \<^verbatim>\<open>currentTable.requiredPID\<close> with the index \<open>count2\<close>. The array is spliced inside the
  loop and the index still advances, and the bound is the current length.
\<close>

function slotsLoop ::
  "nat \<Rightarrow> string \<Rightarrow> cpEvent \<Rightarrow> tableObj \<times> cypherPoker
     \<Rightarrow> (error + unit) \<times> tableObj \<times> cypherPoker" where
  "slotsLoop count2 frm ownEvent (currentTable, self) =
     (case requiredPID currentTable of
        None \<Rightarrow> (Inl TypeError, currentTable, self)
      | Some required \<Rightarrow>
          if count2 < length required then
            (if required ! count2 = frm \<or> required ! count2 = ''*'' then
               (let spliced = currentTable\<lparr>requiredPID :=
                                Some (take count2 required @ drop (Suc count2) required)\<rparr>
                in case joinedPID spliced of
                     None \<Rightarrow> (Inl TypeError, spliced, self)
                   | Some joined \<Rightarrow>
                       (let pushed = spliced\<lparr>joinedPID := Some (joined @ [frm])\<rparr>;
                            joinResponse = copyTable pushed (buildCPMessage ''jointable'');
                            recipients = map Some (createTablePIDList (joined @ [frm]) self);
                            self1 = self\<lparr>sent := sent self @ [(joinResponse, recipients)],
                                      dispatched := dispatched self @ [ownEvent]\<rparr>
                        in slotsLoop (Suc count2) frm ownEvent (pushed, self1)))
             else slotsLoop (Suc count2) frm ownEvent (currentTable, self))
          else (Inr (), currentTable, self))"
  by pat_completeness auto
termination
  by (relation "measure (\<lambda>(count2, frm, ownEvent, currentTable, self).
        (case requiredPID currentTable of None \<Rightarrow> 0 | Some required \<Rightarrow> length required - count2))")
     auto

text \<open>
  The outer loop over \<^verbatim>\<open>this._joinedTables\<close>. The tables are changed in place; the model
  returns the array with the tables as the loop left them, also when it stops on an
  exception.
\<close>

fun tablesLoop ::
  "tableObj list \<Rightarrow> string \<Rightarrow> tableObj \<Rightarrow> cpEvent \<Rightarrow> cypherPoker
     \<Rightarrow> (error + unit) \<times> tableObj list \<times> cypherPoker" where
  "tablesLoop [] frm message ownEvent self = (Inr (), [], self)"
| "tablesLoop (currentTable # rest) frm message ownEvent self =
     (if ownerPID currentTable = Some (privateID self) then
        (case (if tableID currentTable = tableID message
                  \<and> tableName currentTable = tableName message
               then slotsLoop 0 frm ownEvent (currentTable, self)
               else (Inr (), currentTable, self)) of
           (Inl err, table1, self1) \<Rightarrow> (Inl err, table1 # rest, self1)
         | (Inr u, table1, self1) \<Rightarrow>
             (case requiredPID table1 of
                None \<Rightarrow> (Inl TypeError, table1 # rest, self1)
              | Some required \<Rightarrow>
                  (let self2 = (if length required > 0
                                then self1\<lparr>u_openTables := Some True\<rparr> else self1)
                   in case tablesLoop rest frm message ownEvent self2 of
                        (r, rest1, self3) \<Rightarrow> (r, table1 # rest1, self3))))
      else (case tablesLoop rest frm message ownEvent self of
              (r, rest1, self1) \<Rightarrow> (r, currentTable # rest1, self1)))"

text \<open>
  The \<^verbatim>\<open>"jointablerequest"\<close> case of \<^verbatim>\<open>handleP2PMessage\<close>, for a notification from
  \<open>frm\<close> with the payload \<open>message\<close>.
\<close>

definition handleJoinTableRequest ::
  "string \<Rightarrow> tableObj \<Rightarrow> cypherPoker \<Rightarrow> (error + unit) \<times> cypherPoker" where
  "handleJoinTableRequest frm message self =
     (let ownEvent = MessageEvent ''jointablerequest'' \<lparr>fromPID = frm, data = Some message\<rparr>
      in if \<not> openTables self then (Inr (), self)
         else
           (let self1 = self\<lparr>u_openTables := Some False\<rparr>
            in case u_joinedTables self1 of
                 None \<Rightarrow> (Inl TypeError, self1)
               | Some joined \<Rightarrow>
                   (case tablesLoop joined frm message ownEvent self1 of
                      (r, joined1, self2) \<Rightarrow> (r, self2\<lparr>u_joinedTables := Some joined1\<rparr>))))"

section \<open>The life of one table object\<close>





section \<open>The announcement cache: properties\<close>

lemma captureLoop_duplicate:
  "entry \<in> set cache \<Longrightarrow> ownerPID entry = Some frm \<Longrightarrow> tableID entry = tid \<Longrightarrow>
   captureLoop cache numTables frm tid maxPerPeer"
  by (induction cache arbitrary: numTables) (auto simp: Let_def)

text \<open>
  Where the payload names the sender as owner, a second announcement of a cached table id
  is refused, whatever the quota.
\<close>

lemma captureTable_duplicate_of_owner:
  assumes "entry \<in> set (announcedTables self)"
    and "ownerPID entry = Some (fromPID r)"
    and "data r = Some d"
    and "tableID entry = tableID d"
  shows "\<not> fst (captureTable r self)"
  using captureLoop_duplicate [OF assms(1,2,4)] assms(3)
  by (simp add: captureTable_def Let_def)

text \<open>
  A peer whose cached entries number exactly the quota still gets a new table accepted:
  the scan refuses only when it has counted more entries than the quota.
\<close>

lemma captureLoop_within_quota:
  assumes "\<forall>entry\<in>set cache. ownerPID entry = Some frm \<longrightarrow> tableID entry \<noteq> tid"
    and "numTables + int (length (filter (\<lambda>entry. ownerPID entry = Some frm) cache)) \<le> maxPerPeer"
  shows "\<not> captureLoop cache numTables frm tid maxPerPeer"
  using assms
  by (induction cache arbitrary: numTables) (auto simp: Let_def)

lemma captureTable_at_quota_accepts:
  assumes "isValidTable (data r)"
    and "data r = Some d"
    and "\<forall>entry\<in>set (announcedTables self). ownerPID entry = Some (fromPID r) \<longrightarrow> tableID entry \<noteq> tableID d"
    and "int (length (filter (\<lambda>entry. ownerPID entry = Some (fromPID r)) (announcedTables self)))
           = maxCapturesPerPeer self"
  shows "fst (captureTable r self)"
  using assms captureLoop_within_quota [of "announcedTables self" "fromPID r" "tableID d" 0 "maxCapturesPerPeer self"]
  by (simp add: captureTable_def Let_def)

text \<open>
  C10. Whenever \<^verbatim>\<open>captureTable\<close> returns false, for whichever of its reasons, the
  announced-tables cache holds the same entries in the same order as before the call.
\<close>

theorem captureTable_rejected_keeps_cache:
  "\<not> fst (captureTable r self) \<Longrightarrow>
   announcedTables (snd (captureTable r self)) = announcedTables self"
  by (auto simp: captureTable_def announcedTables_def Let_def split: option.splits if_splits)

text \<open>An announcement with an empty table id is refused by a cache holding one entry.\<close>

theorem captureTable_rejected_keeps_cache_witness:
  "\<not> fst (captureTable (announcement ''P'' ''P'' [])
            (snd (captureTable (announcement ''P'' ''P'' ''1'') (newCypherPoker ''me''))))
   \<and> announcedTables (snd (captureTable (announcement ''P'' ''P'' [])
            (snd (captureTable (announcement ''P'' ''P'' ''1'') (newCypherPoker ''me'')))))
     = announcedTables (snd (captureTable (announcement ''P'' ''P'' ''1'') (newCypherPoker ''me'')))"
proof -
  have refused: "\<not> fst (captureTable (announcement ''P'' ''P'' [])
            (snd (captureTable (announcement ''P'' ''P'' ''1'') (newCypherPoker ''me''))))"
    by code_simp
  show ?thesis
    using refused captureTable_rejected_keeps_cache [OF refused] by simp
qed

text \<open>
  C8, amended. When the cache holds \<^verbatim>\<open>maxCapturedTables\<close> entries, that capacity is at
  least 1, and \<^verbatim>\<open>captureTable\<close> accepts an announcement, the cache afterwards is the new
  entry at index 0 followed by the old entries without the last one: exactly the oldest
  entry is removed and the others keep their order.
\<close>

theorem captureTable_evicts_oldest:
  assumes "int (length (announcedTables self)) = maxCapturedTables self"
    and "0 < maxCapturedTables self"
    and "captureTable r self = (True, self')"
  shows "\<exists>d kept oldest. data r = Some d \<and> announcedTables self = kept @ [oldest]
           \<and> announcedTables self' = d # kept"
proof -
  from assms(1,2) have nonempty: "announcedTables self \<noteq> []" by auto
  then have parts:
    "announcedTables self = butlast (announcedTables self) @ [last (announcedTables self)]"
    by simp
  from assms(3) obtain d where d: "data r = Some d"
    by (auto simp: captureTable_def Let_def split: option.splits if_splits)
  from assms d nonempty have "announcedTables self' = d # butlast (announcedTables self)"
    by (auto simp: captureTable_def Let_def announcedTables_def split: option.splits if_splits)
  with d parts show ?thesis by blast
qed

text \<open>A cache of capacity 2 holding the tables 2 and 1 takes table 3 and drops table 1.\<close>

theorem captureTable_evicts_oldest_witness:
  "int (length (announcedTables (snd (captureAll
          [announcement ''P'' ''P'' ''1'', announcement ''Q'' ''Q'' ''2'']
          ((newCypherPoker ''me'')\<lparr>u_maxCapturedTables := Some 2\<rparr>))))) = 2
   \<and> fst (captureTable (announcement ''P'' ''P'' ''3'')
            (snd (captureAll [announcement ''P'' ''P'' ''1'', announcement ''Q'' ''Q'' ''2'']
                    ((newCypherPoker ''me'')\<lparr>u_maxCapturedTables := Some 2\<rparr>))))
   \<and> (\<exists>d kept oldest.
         data (announcement ''P'' ''P'' ''3'') = Some d
         \<and> announcedTables (snd (captureAll
               [announcement ''P'' ''P'' ''1'', announcement ''Q'' ''Q'' ''2'']
               ((newCypherPoker ''me'')\<lparr>u_maxCapturedTables := Some 2\<rparr>))) = kept @ [oldest]
         \<and> announcedTables (snd (captureTable (announcement ''P'' ''P'' ''3'')
               (snd (captureAll [announcement ''P'' ''P'' ''1'', announcement ''Q'' ''Q'' ''2'']
                       ((newCypherPoker ''me'')\<lparr>u_maxCapturedTables := Some 2\<rparr>)))))
             = d # kept)"
proof -
  let ?full = "snd (captureAll [announcement ''P'' ''P'' ''1'', announcement ''Q'' ''Q'' ''2'']
                      ((newCypherPoker ''me'')\<lparr>u_maxCapturedTables := Some 2\<rparr>))"
  have two: "int (length (announcedTables ?full)) = 2"
    by code_simp
  have capacity: "maxCapturedTables ?full = 2"
    by code_simp
  have accepted: "fst (captureTable (announcement ''P'' ''P'' ''3'') ?full)"
    by code_simp
  then have pair: "captureTable (announcement ''P'' ''P'' ''3'') ?full
                   = (True, snd (captureTable (announcement ''P'' ''P'' ''3'') ?full))"
    by (simp add: prod_eq_iff)
  from two capacity have holds: "int (length (announcedTables ?full)) = maxCapturedTables ?full"
    by simp
  from capacity have positive: "0 < maxCapturedTables ?full"
    by simp
  from captureTable_evicts_oldest [OF holds positive pair] two accepted
  show ?thesis by blast
qed

text \<open>
  C8 as stated fails for the capacity 0: the empty cache holds \<^verbatim>\<open>maxCapturedTables\<close>
  entries, the announcement is accepted, and the cache is empty afterwards, so the new
  entry is not at index 0 and no earlier entry was removed.
\<close>

theorem captureTable_capacity_zero_counterexample:
  "int (length (announcedTables ((newCypherPoker ''me'')\<lparr>u_maxCapturedTables := Some 0\<rparr>)))
     = maxCapturedTables ((newCypherPoker ''me'')\<lparr>u_maxCapturedTables := Some 0\<rparr>)
   \<and> fst (captureTable (announcement ''P'' ''P'' ''1'')
            ((newCypherPoker ''me'')\<lparr>u_maxCapturedTables := Some 0\<rparr>))
   \<and> announcedTables (snd (captureTable (announcement ''P'' ''P'' ''1'')
            ((newCypherPoker ''me'')\<lparr>u_maxCapturedTables := Some 0\<rparr>))) = []"
  by code_simp

text \<open>
  C2. With the default quota of 5, six announcements of distinct tables by the same peer,
  each naming that peer as owner, are all accepted; the seventh is the first refused. The
  test \<^verbatim>\<open>numTables > this.maxCapturesPerPeer\<close> refuses only once the peer has more than
  5 entries.
\<close>

theorem captureTable_accepts_sixth_of_peer:
  "fst (captureAll (map (announcement ''P'' ''P'') [''1'', ''2'', ''3'', ''4'', ''5'', ''6'', ''7''])
          (newCypherPoker ''me''))
   = [True, True, True, True, True, True, False]"
  by code_simp

text \<open>
  C5. Peer P announces the same table twice, the payload naming Q as owner. The cache
  stores the payload as it came, so the scan, which compares the stored owner with the
  sender, does not find the first entry: both announcements are accepted and cached.
\<close>

theorem captureTable_accepts_duplicate:
  "fst (captureAll [announcement ''P'' ''Q'' ''1'', announcement ''P'' ''Q'' ''1'']
          (newCypherPoker ''me'')) = [True, True]
   \<and> map tableID (announcedTables (snd (captureAll
          [announcement ''P'' ''Q'' ''1'', announcement ''P'' ''Q'' ''1''] (newCypherPoker ''me''))))
     = [Some ''1'', Some ''1'']"
  by code_simp

section \<open>Joining a table: properties\<close>

lemma slotLoop_iff:
  "slotLoop rs pid acc = (acc \<or> (\<exists>r\<in>set rs. r = ''*'' \<or> r = pid))"
  by (induction rs arbitrary: acc) auto

lemma sendJoinTableRequest_other [simp]:
  "broadcasts (sendJoinTableRequest t self) = broadcasts self"
  by (simp add: sendJoinTableRequest_def Let_def)

text \<open>
  C9. For a valid table whose \<^verbatim>\<open>requiredPID\<close> entries are all different from the
  wildcard and from the local peer id, the promise that \<^verbatim>\<open>joinTable\<close> returns is
  rejected, and nothing is handed to the transport: the logs of \<^verbatim>\<open>send\<close> and of
  \<^verbatim>\<open>broadcast\<close> are as before. This holds connected or not.
\<close>

theorem joinTable_no_slot_rejects:
  assumes "isValidTable (Some t)"
    and "requiredPID t = Some slots"
    and "\<forall>r\<in>set slots. r \<noteq> ''*'' \<and> r \<noteq> privateID self"
    and "joinTable (Some t) replyTimeout self = (p, self')"
  shows "(\<exists>reason. promises self' ! p = Rejected reason)
         \<and> sent self' = sent self \<and> broadcasts self' = broadcasts self"
proof -
  have no: "\<not> slotLoop slots (privateID self) False"
    using assms(3) by (auto simp: slotLoop_iff)
  show ?thesis
  proof (cases "connected self")
    case True
    with assms(1,2,4) no show ?thesis
      by (auto simp: joinTable_def joinTableExecutor_def Let_def)
  next
    case False
    with assms(4) show ?thesis
      by (auto simp: joinTable_def joinTableExecutor_def Let_def)
  qed
qed

text \<open>Peer B asks to join a table of A whose two seats are kept for C and D.\<close>

theorem joinTable_no_slot_rejects_witness:
  "isValidTable (Some (exampleTable ''A'' ''1'' [''C'', ''D'']))
   \<and> ''C'' \<noteq> ''*'' \<and> ''C'' \<noteq> privateID (started ''B'')
   \<and> ''D'' \<noteq> ''*'' \<and> ''D'' \<noteq> privateID (started ''B'')
   \<and> (\<exists>reason. promises (snd (joinTable (Some (exampleTable ''A'' ''1'' [''C'', ''D''])) 100 (started ''B'')))
                 ! fst (joinTable (Some (exampleTable ''A'' ''1'' [''C'', ''D''])) 100 (started ''B''))
               = Rejected reason)
   \<and> sent (snd (joinTable (Some (exampleTable ''A'' ''1'' [''C'', ''D''])) 100 (started ''B'')))
       = sent (started ''B'')
   \<and> broadcasts (snd (joinTable (Some (exampleTable ''A'' ''1'' [''C'', ''D''])) 100 (started ''B'')))
       = broadcasts (started ''B'')"
proof -
  have valid: "isValidTable (Some (exampleTable ''A'' ''1'' [''C'', ''D'']))"
    by code_simp
  have seats: "requiredPID (exampleTable ''A'' ''1'' [''C'', ''D'']) = Some [''C'', ''D'']"
    by code_simp
  have foreign: "\<forall>r\<in>set [''C'', ''D'']. r \<noteq> ''*'' \<and> r \<noteq> privateID (started ''B'')"
    by (simp add: started_def newCypherPoker_def)
  have pair: "joinTable (Some (exampleTable ''A'' ''1'' [''C'', ''D''])) 100 (started ''B'')
      = (fst (joinTable (Some (exampleTable ''A'' ''1'' [''C'', ''D''])) 100 (started ''B'')),
         snd (joinTable (Some (exampleTable ''A'' ''1'' [''C'', ''D''])) 100 (started ''B'')))"
    by simp
  from joinTable_no_slot_rejects [OF valid seats foreign pair] valid foreign
  show ?thesis by simp
qed

text \<open>
  With any request pending, the scan of the pending requests throws, whatever table is
  asked for: a connected peer's \<^verbatim>\<open>joinTable\<close> on a valid table with a wildcard seat is
  rejected with the TypeError, and the instance is otherwise unchanged.
\<close>

lemma requestLoop_pending:
  "requests \<noteq> [] \<Longrightarrow> requestLoop requests count t = Inl TypeError"
  by (cases requests) (simp_all add: indexedProperty_def)

lemma joinTable_with_pending_request:
  assumes "connected self"
    and "isValidTable (Some t)"
    and "requiredPID t = Some slots"
    and "''*'' \<in> set slots"
    and "u_joinTableRequests self = Some requests"
    and "requests \<noteq> []"
  shows "joinTable (Some t) replyTimeout self
         = (length (promises self),
            self\<lparr>promises := promises self @ [Rejected (Some TypeError)]\<rparr>)"
proof -
  from assms(4) have slot: "slotLoop slots (privateID self) False"
    by (auto simp: slotLoop_iff)
  have same: "self\<lparr>u_joinTableRequests := Some requests\<rparr> = self"
    using assms(5) by simp
  from assms slot same requestLoop_pending [OF assms(6), of 0 t] show ?thesis
    by (simp add: joinTable_def joinTableExecutor_def Let_def)
qed

text \<open>
  C4. Peer B, connected, has one pending request, for table 1 of A. It asks to join table 2
  of C, a valid table with a wildcard seat and no pending request of its own. The scan of
  the pending requests throws on its first element, the promise is rejected with the
  TypeError, and the request is neither recorded nor sent, nor is a timer started.
\<close>

theorem joinTable_other_request_throws:
  "case joinTable (Some (exampleTable ''A'' ''1'' [''*''])) 100 (started ''B'') of
     (p1, waiting) \<Rightarrow>
       (case joinTable (Some (exampleTable ''C'' ''2'' [''*''])) 100 waiting of
          (p2, after) \<Rightarrow>
            connected waiting
            \<and> isValidTable (Some (exampleTable ''C'' ''2'' [''*'']))
            \<and> map (\<lambda>r. (ownerPID r, tableID r))
                  (case u_joinTableRequests waiting of None \<Rightarrow> [] | Some rs \<Rightarrow> rs)
                = [(Some ''A'', Some ''1'')]
            \<and> promises after ! p2 = Rejected (Some TypeError)
            \<and> sent after = sent waiting
            \<and> u_joinTableRequests after = u_joinTableRequests waiting
            \<and> timers after = timers waiting)"
  by code_simp

text \<open>
  Expiry of a running timer whose request is pending: the callback throws, and only the
  timer is gone.
\<close>

lemma joinTimerExpires_throws:
  assumes "handle \<in> set (timers self)"
    and "u_joinTableRequests self = Some requests"
    and "request \<in> set requests"
    and "joinTimeoutID request = Some handle"
  shows "joinTimerExpires handle self
         = (Inl TypeError, self\<lparr>timers := removeAll handle (timers self)\<rparr>)"
proof -
  from assms(3,4) obtain found where
    "find (\<lambda>r. joinTimeoutID r = Some handle) requests = Some found"
    by (cases "find (\<lambda>r. joinTimeoutID r = Some handle) requests") (auto simp: find_None_iff)
  with assms(1,2) show ?thesis
    by (simp add: joinTimerExpires_def onJoinTableRequestTimeout_def Let_def)
qed

text \<open>
  C1. Peer B joins table 1 of A: the request is pending, its promise open and its timer 0
  running. When the timer expires the host calls the bare
  \<^verbatim>\<open>onJoinTableRequestTimeout\<close>, whose first statement \<^verbatim>\<open>this.debug(...)\<close> throws: the
  instance is as before but for the timer, with the request still pending, the promise
  still open and no event dispatched.
\<close>

theorem join_timeout_callback_throws:
  "case joinTable (Some (exampleTable ''A'' ''1'' [''*''])) 100 (started ''B'') of
     (p, waiting) \<Rightarrow>
       timers waiting = [0]
       \<and> promises waiting ! p = Pending
       \<and> map joinTimeoutID (case u_joinTableRequests waiting of None \<Rightarrow> [] | Some rs \<Rightarrow> rs)
           = [Some 0]
       \<and> dispatched waiting = []
       \<and> joinTimerExpires 0 waiting = (Inl TypeError, waiting\<lparr>timers := []\<rparr>)"
  by code_simp

text \<open>
  Called as a method of the instance, the same function does what the timeout is meant to
  do: the request is removed, the promise rejected and the event dispatched with the table.
\<close>

lemma onJoinTableRequestTimeout_on_instance:
  "case joinTable (Some (exampleTable ''A'' ''1'' [''*''])) 100 (started ''B'') of
     (p, waiting) \<Rightarrow>
       (case onJoinTableRequestTimeout ThisInstance (exampleTable ''A'' ''1'' [''*'']) waiting of
          (r, after) \<Rightarrow>
            r = Inr () \<and> u_joinTableRequests after = Some []
            \<and> promises after ! p = Rejected None
            \<and> map (\<lambda>e. case e of JoinTableTimeout t \<Rightarrow> tableID t | MessageEvent k m \<Rightarrow> None)
                  (dispatched after) = [Some ''1''])"
  by code_simp

section \<open>Searching the joined tables: properties\<close>

text \<open>
  With a filter given and a table in the registry, the search throws and returns nothing.
\<close>

lemma getJoinedTablesLoop_throws:
  "joined \<noteq> [] \<Longrightarrow> getJoinedTablesLoop joined name tid = Inl ReferenceError"
  by (cases joined) (simp_all add: ownerID_def Let_def)

lemma getJoinedTables_filtered_throws:
  assumes "u_joinedTables self = Some joined"
    and "joined \<noteq> []"
    and "\<not> (name = None \<and> tid = None \<and> owner = None)"
  shows "getJoinedTables name tid owner self = (Inl ReferenceError, self)"
  using assms getJoinedTablesLoop_throws [OF assms(2), of name tid]
  by (auto simp: getJoinedTables_def)

text \<open>
  C3. Peer A has created the table named t. A search for the name t, which that table
  matches, does not return it: the loop throws the ReferenceError on the first table.
\<close>

theorem getJoinedTables_throws:
  "case createTable ''t'' (Inl 2) None (Some ''1'') False [] (started ''A'') of
     (created, owner) \<Rightarrow>
       joinedTables owner = [exampleTable ''A'' ''1'' [''*'', ''*'']]
       \<and> filter (specMatchesAllFilters (Some ''t'') None None) (joinedTables owner)
           = [exampleTable ''A'' ''1'' [''*'', ''*'']]
       \<and> fst (getJoinedTables (Some ''t'') None None owner) = Inl ReferenceError"
  by code_simp

section \<open>Handling a join request: properties\<close>

text \<open>
  C6. Peer A owns a table with two wildcard seats, and R asks to join it. The loop takes the
  seat at index 0, moves on to index 1 of an array that now has one element, and stops:
  one wildcard seat is left, R is in \<^verbatim>\<open>joinedPID\<close> once, and one update was sent.
\<close>

theorem join_request_skips_seat:
  "case createTable ''t'' (Inl 2) None (Some ''1'') False [] (started ''A'') of
     (created, owner) \<Rightarrow>
       (case handleJoinTableRequest ''R''
               (copyTable (exampleTable ''A'' ''1'' [''*'', ''*''])
                  (buildCPMessage ''jointablerequest''))
               owner of
          (r, after) \<Rightarrow>
            map requiredPID (joinedTables owner) = [Some [''*'', ''*'']]
            \<and> r = Inr ()
            \<and> map requiredPID (joinedTables after) = [Some [''*'']]
            \<and> map joinedPID (joinedTables after) = [Some [''A'', ''R'']]
            \<and> length (sent after) = 1 \<and> length (dispatched after) = 1)"
  by code_simp

section \<open>Announcing a table: properties\<close>









end
